theory Spec2Isabelle
  imports Main
begin

section \<open>Values and exceptions shared by the two Lambda functions\<close>

text \<open>
  The values an invocation event can carry (decoded JSON) and that are handed to
  DynamoDB as expression attribute values. Equality of two such values is the
  equality DynamoDB uses in a comparison: values of different type are different.
\<close>

datatype pyval =
    PNone
  | PBool bool
  | PInt int
  | PStr string
  | PList "pyval list"
  | PDict "(string \<times> pyval) list"

text \<open>Python's truth value, as \<open>all([...])\<close> and \<open>if not id\<close> test it.\<close>

fun truthy :: "pyval \<Rightarrow> bool" where
  "truthy PNone = False"
| "truthy (PBool b) = b"
| "truthy (PInt n) = (n \<noteq> 0)"
| "truthy (PStr s) = (s \<noteq> [])"
| "truthy (PList xs) = (xs \<noteq> [])"
| "truthy (PDict kvs) = (kvs \<noteq> [])"

text \<open>
  A string is a list of characters; a character stands for the code point of its
  number, so the strings of the model are Python's strings over the code points
  below 256.
\<close>

text \<open>\<open>str(n)\<close> for a natural number: its decimal digits.\<close>

fun str_nat :: "nat \<Rightarrow> string" where
  "str_nat n =
     (if n < 10 then [char_of (48 + n)]
      else str_nat (n div 10) @ [char_of (48 + n mod 10)])"

declare str_nat.simps [simp del]

text \<open>
  The exceptions that reach the code. \<open>ClientError\<close> is botocore's exception for an
  error response of the service: the error code, the operation name, the number of
  retry attempts when the response says that the maximum of attempts was reached, and
  the error message. \<open>BotoCoreError\<close> stands for botocore's other exception family
  (connection and endpoint failures, parameter validation, missing credentials),
  which is not a subclass of \<open>ClientError\<close>, and \<open>RequestException\<close> for what the
  HTTP library raises; both carry the text the service layer gave them. The
  exceptions that Python raises in the code itself are recorded by their class.
\<close>

datatype exn =
    ClientError string string "nat option" string
  | BotoCoreError string
  | RequestException string
  | TypeError
  | ValueError
  | AttributeError

text \<open>
  \<open>str(error)\<close> for a \<open>ClientError\<close>: botocore's template
  \<open>An error occurred ({error_code}) when calling the {operation_name}
  operation{retry_info}: {error_message}\<close>, where the retry info is empty or
  \<open> (reached max retries: N)\<close>.
\<close>

definition str_ClientError :: "string \<Rightarrow> string \<Rightarrow> nat option \<Rightarrow> string \<Rightarrow> string" where
  "str_ClientError code operation retries message =
     ''An error occurred ('' @ code @ '') when calling the '' @ operation @
     '' operation'' @
     (case retries of
        None \<Rightarrow> []
      | Some n \<Rightarrow> '' (reached max retries: '' @ str_nat n @ '')'') @
     '': '' @ message"

section \<open>teamCheckOverlappingSessions: the session overlap guard\<close>

subsection \<open>The requests table and its scan\<close>

text \<open>
  An item of the requests table. \<open>id\<close> is the table's key, so every item has it, as a
  string; the other attributes may be missing from an item. \<open>req_size\<close> is the size
  of the whole item in bytes, as DynamoDB counts it.
\<close>

record access_request =
  req_id :: string
  req_size :: nat
  req_email :: "pyval option"
  req_accountId :: "pyval option"
  req_roleId :: "pyval option"
  req_status :: "pyval option"

fun attribute :: "access_request \<Rightarrow> string \<Rightarrow> pyval option" where
  "attribute r a =
     (if a = ''id'' then Some (PStr (req_id r))
      else if a = ''email'' then req_email r
      else if a = ''accountId'' then req_accountId r
      else if a = ''roleId'' then req_roleId r
      else if a = ''status'' then req_status r
      else None)"

text \<open>
  The part of DynamoDB's expression language the filter uses: operands are attribute
  names (possibly a \<open>#\<close> placeholder of ExpressionAttributeNames) and \<open>:\<close> placeholders
  of ExpressionAttributeValues; conditions are \<open>=\<close>, \<open><>\<close> and \<open>AND\<close>.
\<close>

datatype operand = Name string | Placeholder string

datatype condition =
    Eq operand operand
  | Ne operand operand
  | And condition condition

record scan_request =
  FilterExpression :: condition
  ExpressionAttributeNames :: "(string \<times> string) list"
  ExpressionAttributeValues :: "(string \<times> pyval) list"
  ProjectionExpression :: string

fun operand_value :: "scan_request \<Rightarrow> access_request \<Rightarrow> operand \<Rightarrow> pyval option" where
  "operand_value rq r (Name n) =
     (case map_of (ExpressionAttributeNames rq) n of
        Some a \<Rightarrow> attribute r a
      | None \<Rightarrow> attribute r n)"
| "operand_value rq r (Placeholder p) = map_of (ExpressionAttributeValues rq) p"

text \<open>
  A comparison with an operand that has no value is false. The only attribute the
  guard compares with \<open><>\<close> is the key, which no item lacks.
\<close>

fun holds :: "scan_request \<Rightarrow> access_request \<Rightarrow> condition \<Rightarrow> bool" where
  "holds rq r (Eq a b) =
     (case (operand_value rq r a, operand_value rq r b) of
        (Some x, Some y) \<Rightarrow> x = y
      | _ \<Rightarrow> False)"
| "holds rq r (Ne a b) =
     (case (operand_value rq r a, operand_value rq r b) of
        (Some x, Some y) \<Rightarrow> x \<noteq> y
      | _ \<Rightarrow> False)"
| "holds rq r (And c d) = (holds rq r c \<and> holds rq r d)"

text \<open>
  One Scan call reads the items of the table in the table's order until it has read
  1 MB of data, and only then applies the filter. \<open>first_page used table\<close> is what a
  call reads that has read \<open>used\<close> bytes so far.
\<close>

definition page_limit :: nat where
  "page_limit = 1048576"

fun first_page :: "nat \<Rightarrow> access_request list \<Rightarrow> access_request list" where
  "first_page used [] = []"
| "first_page used (r # rs) =
     (if used + req_size r \<le> page_limit then r # first_page (used + req_size r) rs
      else [])"

text \<open>
  The response of a scan: the key \<open>Items\<close> with, for each item read that passed the
  filter, its projection on \<open>id\<close>; and the key \<open>LastEvaluatedKey\<close>, with the key of the
  last item read, when the call stopped before the end of the table.
\<close>

record scan_response =
  Items :: "string list option"
  LastEvaluatedKey :: "string option"

text \<open>
  The request store: the items that the table of a given name holds, in the order
  of a scan, or the exception the scan raises.
\<close>

type_synonym request_store = "pyval \<Rightarrow> exn + access_request list"

definition scan :: "request_store \<Rightarrow> pyval \<Rightarrow> scan_request \<Rightarrow> exn + scan_response" where
  "scan db table_name rq =
     (case db table_name of
        Inl e \<Rightarrow> Inl e
      | Inr table \<Rightarrow>
          (let page = first_page 0 table
           in Inr \<lparr>Items =
                      Some (map req_id (filter (\<lambda>r. holds rq r (FilterExpression rq)) page)),
                    LastEvaluatedKey =
                      (if length page < length table
                       then (case rev page of [] \<Rightarrow> None | r # rs \<Rightarrow> Some (req_id r))
                       else None)\<rparr>))"

subsection \<open>lambda\_handler\<close>

type_synonym event = "string \<rightharpoonup> pyval"

text \<open>\<open>event.get(key)\<close>: the value, or \<open>None\<close> for a key the event lacks.\<close>

definition event_get :: "event \<Rightarrow> string \<Rightarrow> pyval" where
  "event_get ev k = (case ev k of None \<Rightarrow> PNone | Some v \<Rightarrow> v)"

text \<open>The returned dict; a key the dict lacks is \<open>None\<close> here.\<close>

record guard_result =
  hasOverlappingSessions :: bool
  overlappingCount :: "int option"
  error :: "string option"

text \<open>The filter of the scan call, \<open>#status = :status_val AND email = :email_val AND
  accountId = :account_id_val AND roleId = :role_id_val AND id <> :current_id\<close>.\<close>

definition filter_expression :: condition where
  "filter_expression =
     And (Eq (Name ''#status'') (Placeholder '':status_val''))
    (And (Eq (Name ''email'') (Placeholder '':email_val''))
    (And (Eq (Name ''accountId'') (Placeholder '':account_id_val''))
    (And (Eq (Name ''roleId'') (Placeholder '':role_id_val''))
         (Ne (Name ''id'') (Placeholder '':current_id'')))))"

definition guard_scan_request :: "pyval \<Rightarrow> pyval \<Rightarrow> pyval \<Rightarrow> pyval \<Rightarrow> scan_request" where
  "guard_scan_request current_request_id email account_id role_id =
     \<lparr>FilterExpression = filter_expression,
      ExpressionAttributeNames = [(''#status'', ''status'')],
      ExpressionAttributeValues =
        [('':status_val'', PStr ''in progress''),
         ('':email_val'', email),
         ('':account_id_val'', account_id),
         ('':role_id_val'', role_id),
         ('':current_id'', current_request_id)],
      ProjectionExpression = ''id''\<rparr>"

definition lambda_handler :: "request_store \<Rightarrow> event \<Rightarrow> exn + guard_result" where
  "lambda_handler db ev =
     (let table_name = event_get ev ''requests_table'';
          current_request_id = event_get ev ''id'';
          email = event_get ev ''email'';
          account_id = event_get ev ''accountId'';
          role_id = event_get ev ''roleId''
      in
        if \<not> list_all truthy [table_name, current_request_id, email, account_id, role_id]
        then Inr \<lparr>hasOverlappingSessions = False,
                  overlappingCount = None,
                  error = Some ''Missing required parameters''\<rparr>
        else
          (case scan db table_name
                  (guard_scan_request current_request_id email account_id role_id) of
             Inr response \<Rightarrow>
               (let items = (case Items response of None \<Rightarrow> [] | Some xs \<Rightarrow> xs);
                    overlapping_count = int (length items)
                in Inr \<lparr>hasOverlappingSessions = (overlapping_count > 0),
                         overlappingCount = Some overlapping_count,
                         error = None\<rparr>)
           | Inl (ClientError code operation retries message) \<Rightarrow>
               Inr \<lparr>hasOverlappingSessions = False,
                    overlappingCount = None,
                    error = Some (str_ClientError code operation retries message)\<rparr>
           | Inl e \<Rightarrow> Inl e))"

section \<open>teamgetEntitlement: the entitlement aggregator\<close>

subsection \<open>Python's \<open>int\<close> and \<open>str\<close> on the durations\<close>

text \<open>
  The white space that \<open>int\<close> drops around a literal: the ASCII characters space,
  tab, line feed, vertical tab, form feed and carriage return, and, of the code
  points from 128 to 255, next line (0x85) and no-break space (0xA0).
\<close>

definition is_space :: "char \<Rightarrow> bool" where
  "is_space c = (c \<in> set [CHR '' '', CHR 0x09, CHR 0x0A, CHR 0x0B, CHR 0x0C, CHR 0x0D,
                            CHR 0x85, CHR 0xA0])"

definition strip :: "string \<Rightarrow> string" where
  "strip s = rev (dropWhile is_space (rev (dropWhile is_space s)))"

definition is_digit :: "char \<Rightarrow> bool" where
  "is_digit c = (48 \<le> (of_char c :: nat) \<and> (of_char c :: nat) \<le> 57)"

definition digit_value :: "char \<Rightarrow> nat" where
  "digit_value c = of_char c - 48"

text \<open>The digits after the first one: a single underscore may stand between two digits.\<close>

fun more_digits :: "nat \<Rightarrow> string \<Rightarrow> nat option" where
  "more_digits acc [] = Some acc"
| "more_digits acc [c] = (if is_digit c then Some (10 * acc + digit_value c) else None)"
| "more_digits acc (c # d # cs) =
     (if is_digit c then more_digits (10 * acc + digit_value c) (d # cs)
      else if c = CHR ''_'' \<and> is_digit d then more_digits acc (d # cs)
      else None)"

definition decimal_literal :: "string \<Rightarrow> nat option" where
  "decimal_literal s =
     (case s of
        [] \<Rightarrow> None
      | c # cs \<Rightarrow> if is_digit c then more_digits (digit_value c) cs else None)"

text \<open>The limit of Python on the number of digits of a literal that \<open>int\<close> converts.\<close>

definition max_str_digits :: nat where
  "max_str_digits = 4300"

text \<open>
  \<open>int(s)\<close> for a string: surrounding white space is dropped, a sign may lead, the
  rest is a decimal literal of at most 4300 digits; anything else raises
  \<open>ValueError\<close>.
\<close>

definition py_int :: "string \<Rightarrow> exn + int" where
  "py_int s =
     (let t = strip s;
          negative = (case t of [] \<Rightarrow> False | c # cs \<Rightarrow> c = CHR ''-'');
          literal = (case t of
                       [] \<Rightarrow> []
                     | c # cs \<Rightarrow> if c = CHR ''-'' \<or> c = CHR ''+'' then cs else t)
      in case decimal_literal literal of
           None \<Rightarrow> Inl ValueError
         | Some n \<Rightarrow>
             if length (filter is_digit literal) > max_str_digits then Inl ValueError
             else Inr (if negative then - int n else int n))"

text \<open>
  \<open>str(n)\<close> for an integer. The handler applies it to \<open>maxDuration\<close>, which is 0 or
  what \<open>int\<close> gave for a literal of at most 4300 digits, so the limit of \<open>str\<close> on
  the number of digits is not reached.
\<close>

definition str_int :: "int \<Rightarrow> string" where
  "str_int i = (if i < 0 then CHR ''-'' # str_nat (nat (- i)) else str_nat (nat i))"

subsection \<open>Records of the policy table, the organization and the result\<close>

text \<open>The \<open>{"name": ..., "id": ...}\<close> dicts of accounts, OUs and permissions.\<close>

record data =
  data_name :: string
  data_id :: string

text \<open>
  An eligibility policy as the policy table returns it. Every attribute is read with
  \<open>get\<close> and a default, so each may be missing (\<open>None\<close>).
\<close>

record eligibility =
  item_id :: "string option"
  item_accounts :: "data list option"
  item_ous :: "data list option"
  item_permissions :: "data list option"
  item_approvalRequired :: "bool option"
  item_duration :: "string option"

text \<open>A response with the key \<open>Items\<close> (of \<open>query\<close>, and what \<open>get_entitlements\<close> returns).\<close>

record items_response =
  resp_Items :: "eligibility list option"

text \<open>The response of \<open>get_item\<close>, with the key \<open>Item\<close> when the key was found.\<close>

record item_response =
  resp_Item :: "eligibility option"

text \<open>An account as \<open>list_accounts_for_parent\<close> lists it.\<close>

record org_account =
  acct_Id :: string
  acct_Name :: string

record organization =
  MasterAccountId :: string

text \<open>One entry of the aggregated policy, and the aggregated result.\<close>

record entry =
  accounts :: "data list"
  permissions :: "data list"
  approvalRequired :: bool
  duration :: string

record aggregated =
  result_id :: string
  policy :: "entry list"
  username :: string

text \<open>The response of the GraphQL endpoint; \<open>errors\<close> is its key of that name.\<close>

record graphql_response =
  errors :: "string list option"

text \<open>
  The services the module calls, each with the exception it may raise:
  the policy table's \<open>query\<close> on the index \<open>byEntityId\<close> and its \<open>get_item\<close>, both for a
  given id; the pages the paginator of \<open>list_accounts_for_parent\<close> yields for an OU,
  where a page that is an exception is raised when the loop reaches it; the
  credentials of the session; and the signed POST of the result to the endpoint,
  decoded as JSON. What the code prints is not part of the model.
\<close>

record services =
  query_byEntityId :: "string \<Rightarrow> exn + items_response"
  get_item :: "string \<Rightarrow> exn + item_response"
  list_accounts_for_parent :: "string \<Rightarrow> (exn + org_account list) list"
  get_credentials :: "string option"
  post_json :: "aggregated \<Rightarrow> exn + graphql_response"

text \<open>The module's globals: the environment's \<open>ACCOUNT_ID\<close> and \<open>mgmt_account_id\<close>.\<close>

record globals =
  ACCOUNT_ID :: string
  mgmt_account_id :: "string option"

subsection \<open>get\_mgmt\_account\_id and the module's initialisation\<close>

text \<open>
  The argument is the outcome of \<open>describe_organization\<close>. After a \<open>ClientError\<close> the
  function prints and falls off its end: it returns \<open>None\<close>.
\<close>

definition get_mgmt_account_id :: "exn + organization \<Rightarrow> exn + string option" where
  "get_mgmt_account_id describe_organization =
     (case describe_organization of
        Inr response \<Rightarrow> Inr (Some (MasterAccountId response))
      | Inl (ClientError code operation retries message) \<Rightarrow> Inr None
      | Inl e \<Rightarrow> Inl e)"

definition module_init :: "string \<Rightarrow> exn + organization \<Rightarrow> exn + globals" where
  "module_init account_id describe_organization =
     (case get_mgmt_account_id describe_organization of
        Inl e \<Rightarrow> Inl e
      | Inr m \<Rightarrow> Inr \<lparr>ACCOUNT_ID = account_id, mgmt_account_id = m\<rparr>)"

text \<open>
  The call \<open>describe_organization\<close> itself: it answers with the organization that the
  deployment's account belongs to, or it raises the given exception.
\<close>

definition describe_organization :: "organization \<Rightarrow> exn option \<Rightarrow> exn + organization" where
  "describe_organization org failure =
     (case failure of
        None \<Rightarrow> Inr org
      | Some e \<Rightarrow> Inl e)"

subsection \<open>publishPolicy\<close>

definition publishPolicy :: "services \<Rightarrow> aggregated \<Rightarrow> exn + aggregated" where
  "publishPolicy sv result =
     (case get_credentials sv of
        None \<Rightarrow>
          Inl AttributeError
      | Some credentials \<Rightarrow>
          (case post_json sv result of
             Inr response \<Rightarrow>
               (if errors response \<noteq> None then Inr result else Inr result)
           | Inl exception \<Rightarrow> Inr result))"

subsection \<open>list\_account\_for\_ou\<close>

definition account_entry :: "org_account \<Rightarrow> data" where
  "account_entry acct = \<lparr>data_name = acct_Name acct, data_id = acct_Id acct\<rparr>"

text \<open>The inner loop, over the accounts of one page.\<close>

fun extend_page :: "globals \<Rightarrow> bool \<Rightarrow> data list \<Rightarrow> org_account list \<Rightarrow> data list" where
  "extend_page g deployed_in_mgmt account [] = account"
| "extend_page g deployed_in_mgmt account (acct # accts) =
     (if \<not> deployed_in_mgmt then
        (if Some (acct_Id acct) \<noteq> mgmt_account_id g
         then extend_page g deployed_in_mgmt (account @ [account_entry acct]) accts
         else extend_page g deployed_in_mgmt account accts)
      else extend_page g deployed_in_mgmt (account @ [account_entry acct]) accts)"

text \<open>The outer loop, over the pages.\<close>

fun extend_pages ::
  "globals \<Rightarrow> bool \<Rightarrow> data list \<Rightarrow> (exn + org_account list) list \<Rightarrow> exn + data list" where
  "extend_pages g deployed_in_mgmt account [] = Inr account"
| "extend_pages g deployed_in_mgmt account (Inl e # pages) = Inl e"
| "extend_pages g deployed_in_mgmt account (Inr page # pages) =
     extend_pages g deployed_in_mgmt (extend_page g deployed_in_mgmt account page) pages"

text \<open>
  The result is \<open>Some account\<close> for the returned list and \<open>None\<close> when the function
  returns nothing, which it does after a \<open>ClientError\<close>.
\<close>

definition list_account_for_ou :: "globals \<Rightarrow> services \<Rightarrow> string \<Rightarrow> exn + data list option" where
  "list_account_for_ou g sv ouId =
     (let deployed_in_mgmt = (if Some (ACCOUNT_ID g) = mgmt_account_id g then True else False)
      in case extend_pages g deployed_in_mgmt [] (list_accounts_for_parent sv ouId) of
           Inr account \<Rightarrow> Inr (Some account)
         | Inl (ClientError code operation retries message) \<Rightarrow> Inr None
         | Inl e \<Rightarrow> Inl e)"

subsection \<open>get\_entitlements\<close>

text \<open>The first \<open>try\<close>: the policies of the index query, none after a \<open>ClientError\<close>.\<close>

definition index_policies :: "services \<Rightarrow> string \<Rightarrow> exn + eligibility list" where
  "index_policies sv ident =
     (case query_byEntityId sv ident of
        Inr response \<Rightarrow>
          (case resp_Items response of
             Some its \<Rightarrow> Inr ([] @ its)
           | None \<Rightarrow> Inr [])
      | Inl (ClientError code operation retries message) \<Rightarrow> Inr []
      | Inl e \<Rightarrow> Inl e)"

definition get_entitlements :: "services \<Rightarrow> string \<Rightarrow> exn + items_response" where
  "get_entitlements sv ident =
     (case index_policies sv ident of
        Inl e \<Rightarrow> Inl e
      | Inr policies \<Rightarrow>
          (case get_item sv ident of
             Inr response \<Rightarrow>
               (case resp_Item response of
                  Some old_policy \<Rightarrow>
                    (if \<not> list_ex (\<lambda>p. item_id p = item_id old_policy) policies
                     then Inr \<lparr>resp_Items = Some (policies @ [old_policy])\<rparr>
                     else Inr \<lparr>resp_Items = Some policies\<rparr>)
                | None \<Rightarrow> Inr \<lparr>resp_Items = Some policies\<rparr>)
           | Inl (ClientError code operation retries message) \<Rightarrow>
               Inr \<lparr>resp_Items = Some policies\<rparr>
           | Inl e \<Rightarrow> Inl e))"

subsection \<open>handler\<close>

text \<open>
  The loop over the OUs of one policy. \<open>extend\<close> with the \<open>None\<close> that
  \<open>list_account_for_ou\<close> returns after a \<open>ClientError\<close> raises \<open>TypeError\<close>.
\<close>

fun expand_ous :: "globals \<Rightarrow> services \<Rightarrow> data list \<Rightarrow> data list \<Rightarrow> exn + data list" where
  "expand_ous g sv accts [] = Inr accts"
| "expand_ous g sv accts (ou # ous) =
     (case list_account_for_ou g sv (data_id ou) of
        Inl e \<Rightarrow> Inl e
      | Inr None \<Rightarrow> Inl TypeError
      | Inr (Some d) \<Rightarrow> expand_ous g sv (accts @ d) ous)"

text \<open>
  The body of \<open>for item in items\<close>, on the state the loops share: the running
  \<open>maxDuration\<close> and the list \<open>eligibility\<close>.
\<close>

definition process_item ::
  "globals \<Rightarrow> services \<Rightarrow> int \<times> entry list \<Rightarrow> eligibility \<Rightarrow> exn + int \<times> entry list" where
  "process_item g sv st item =
     (case st of (maxDuration, eligibility) \<Rightarrow>
        (case py_int (case item_duration item of None \<Rightarrow> ''0'' | Some d \<Rightarrow> d) of
           Inl e \<Rightarrow> Inl e
         | Inr n \<Rightarrow>
             (let maxDuration = (if n > maxDuration then n else maxDuration)
              in case expand_ous g sv
                        (case item_accounts item of None \<Rightarrow> [] | Some a \<Rightarrow> a)
                        (case item_ous item of None \<Rightarrow> [] | Some os \<Rightarrow> os) of
                   Inl e \<Rightarrow> Inl e
                 | Inr accts \<Rightarrow>
                     Inr (maxDuration,
                          eligibility @
                            [\<lparr>accounts = accts,
                              permissions =
                                (case item_permissions item of None \<Rightarrow> [] | Some ps \<Rightarrow> ps),
                              approvalRequired =
                                (case item_approvalRequired item of None \<Rightarrow> True | Some b \<Rightarrow> b),
                              duration =
                                (case item_duration item of
                                   None \<Rightarrow> str_int maxDuration
                                 | Some d \<Rightarrow> d)\<rparr>]))))"

fun process_items ::
  "globals \<Rightarrow> services \<Rightarrow> int \<times> entry list \<Rightarrow> eligibility list \<Rightarrow> exn + int \<times> entry list" where
  "process_items g sv st [] = Inr st"
| "process_items g sv st (item # items) =
     (case process_item g sv st item of
        Inl e \<Rightarrow> Inl e
      | Inr st' \<Rightarrow> process_items g sv st' items)"

text \<open>
  The loop \<open>for id in [userId] + groupIds\<close>. An id is \<open>None\<close> or a string; \<open>not id\<close>
  holds of \<open>None\<close> and of the empty string.
\<close>

fun process_ids ::
  "globals \<Rightarrow> services \<Rightarrow> int \<times> entry list \<Rightarrow> string option list \<Rightarrow> exn + int \<times> entry list" where
  "process_ids g sv st [] = Inr st"
| "process_ids g sv st (None # ids) = process_ids g sv st ids"
| "process_ids g sv st (Some ident # ids) =
     (if ident = [] then process_ids g sv st ids
      else
        (case get_entitlements sv ident of
           Inl e \<Rightarrow> Inl e
         | Inr entitlement_response \<Rightarrow>
             (let items = (case resp_Items entitlement_response of None \<Rightarrow> [] | Some xs \<Rightarrow> xs)
              in if items = [] then process_ids g sv st ids
                 else
                   (case process_items g sv st items of
                      Inl e \<Rightarrow> Inl e
                    | Inr st' \<Rightarrow> process_ids g sv st' ids))))"

text \<open>The invocation event, with the four keys the handler reads.\<close>

record aggregate_event =
  ev_userId :: "string option"
  ev_groupIds :: "string option list"
  ev_username :: string
  ev_id :: string

definition handler :: "globals \<Rightarrow> services \<Rightarrow> aggregate_event \<Rightarrow> exn + aggregated" where
  "handler g sv ev =
     (case process_ids g sv (0, []) ([ev_userId ev] @ ev_groupIds ev) of
        Inl e \<Rightarrow> Inl e
      | Inr (maxDuration, eligibility) \<Rightarrow>
          publishPolicy sv
            \<lparr>result_id = ev_id ev, policy = eligibility, username = ev_username ev\<rparr>)"

section \<open>Notions of the specification\<close>

text \<open>
  A request record is an active session of a user, account and permission set when
  its status is \<open>in progress\<close> and its email, accountId and roleId are the given
  values. It overlaps the current request when, moreover, its id is another one.
\<close>

definition active_session :: "pyval \<Rightarrow> pyval \<Rightarrow> pyval \<Rightarrow> access_request \<Rightarrow> bool" where
  "active_session email account_id role_id r =
     (req_status r = Some (PStr ''in progress'') \<and>
      req_email r = Some email \<and>
      req_accountId r = Some account_id \<and>
      req_roleId r = Some role_id)"

definition overlapping :: "pyval \<Rightarrow> pyval \<Rightarrow> pyval \<Rightarrow> pyval \<Rightarrow> access_request \<Rightarrow> bool" where
  "overlapping current_request_id email account_id role_id r =
     (active_session email account_id role_id r \<and> PStr (req_id r) \<noteq> current_request_id)"

text \<open>
  An account of an OU that the expansion keeps: every account, except the one whose
  id is the stored management account id when the deployment's \<open>ACCOUNT_ID\<close> is
  another one.
\<close>

definition kept :: "globals \<Rightarrow> org_account \<Rightarrow> bool" where
  "kept g acct =
     (\<not> (Some (acct_Id acct) = mgmt_account_id g \<and> Some (ACCOUNT_ID g) \<noteq> mgmt_account_id g))"

text \<open>
  The duration of a policy as an integer (that of \<open>0\<close> for a policy without the
  field), and the running maximum after a sequence of policies, from a starting value.
\<close>

definition duration_int :: "eligibility \<Rightarrow> int" where
  "duration_int item =
     (case py_int (case item_duration item of None \<Rightarrow> ''0'' | Some d \<Rightarrow> d) of
        Inl e \<Rightarrow> 0
      | Inr n \<Rightarrow> n)"

definition running_max :: "int \<Rightarrow> eligibility list \<Rightarrow> int" where
  "running_max m items = foldl max m (map duration_int items)"

text \<open>
  The sequence of resolved policies, in identity-set order: what \<open>get_entitlements\<close>
  returns for each id that is not skipped, one list after the other.
\<close>

fun resolved_policies :: "services \<Rightarrow> string option list \<Rightarrow> exn + eligibility list" where
  "resolved_policies sv [] = Inr []"
| "resolved_policies sv (None # ids) = resolved_policies sv ids"
| "resolved_policies sv (Some ident # ids) =
     (if ident = [] then resolved_policies sv ids
      else
        (case get_entitlements sv ident of
           Inl e \<Rightarrow> Inl e
         | Inr response \<Rightarrow>
             (case resolved_policies sv ids of
                Inl e \<Rightarrow> Inl e
              | Inr rest \<Rightarrow>
                  Inr ((case resp_Items response of None \<Rightarrow> [] | Some xs \<Rightarrow> xs) @ rest))))"

section \<open>Concrete inputs\<close>

subsection \<open>For the guard\<close>

text \<open>
  Requests of 1000 bytes each: the current request \<open>r1\<close>; another active session \<open>r2\<close>
  of the same user, account and permission set; a revoked request; an active one for
  another account; and, for every number, an old revoked request of the same user,
  account and permission set.
\<close>

definition current_request :: access_request where
  "current_request =
     \<lparr>req_id = ''r1'', req_size = 1000, req_email = Some (PStr ''u@example.com''),
      req_accountId = Some (PStr ''111111111111''), req_roleId = Some (PStr ''ps-1''),
      req_status = Some (PStr ''in progress'')\<rparr>"

definition other_session :: access_request where
  "other_session =
     \<lparr>req_id = ''r2'', req_size = 1000, req_email = Some (PStr ''u@example.com''),
      req_accountId = Some (PStr ''111111111111''), req_roleId = Some (PStr ''ps-1''),
      req_status = Some (PStr ''in progress'')\<rparr>"

definition old_request :: "nat \<Rightarrow> access_request" where
  "old_request i =
     \<lparr>req_id = ''old-'' @ str_nat i, req_size = 1000,
      req_email = Some (PStr ''u@example.com''),
      req_accountId = Some (PStr ''111111111111''), req_roleId = Some (PStr ''ps-1''),
      req_status = Some (PStr ''revoked'')\<rparr>"

text \<open>
  A small table with the four requests; a table of 1.1 MB, with the current request,
  1100 old requests and then the other active session; stores that hold the one and
  the other under the name \<open>requests\<close>; a store whose table holds the current request
  only; a store that cannot be reached.
\<close>

definition example_table :: "access_request list" where
  "example_table =
     [current_request,
      other_session,
      \<lparr>req_id = ''r3'', req_size = 1000, req_email = Some (PStr ''u@example.com''),
       req_accountId = Some (PStr ''111111111111''), req_roleId = Some (PStr ''ps-1''),
       req_status = Some (PStr ''revoked'')\<rparr>,
      \<lparr>req_id = ''r4'', req_size = 1000, req_email = Some (PStr ''u@example.com''),
       req_accountId = Some (PStr ''222222222222''), req_roleId = Some (PStr ''ps-1''),
       req_status = Some (PStr ''in progress'')\<rparr>]"

definition large_table :: "access_request list" where
  "large_table = current_request # map old_request [0..<1100] @ [other_session]"

fun example_store :: request_store where
  "example_store t =
     (if t = PStr ''requests'' then Inr example_table
      else Inl (ClientError ''ResourceNotFoundException'' ''Scan'' None
                  ''Requested resource not found''))"

fun large_store :: request_store where
  "large_store t =
     (if t = PStr ''requests'' then Inr large_table
      else Inl (ClientError ''ResourceNotFoundException'' ''Scan'' None
                  ''Requested resource not found''))"

fun own_request_store :: request_store where
  "own_request_store t = Inr [current_request]"

fun unreachable_store :: request_store where
  "unreachable_store t = Inl (BotoCoreError ''Could not connect to the endpoint URL'')"

text \<open>A store whose scan was throttled until the maximum of attempts was reached.\<close>

fun throttled_store :: request_store where
  "throttled_store t =
     Inl (ClientError ''ProvisionedThroughputExceededException'' ''Scan'' (Some 9)
            ''The level of configured provisioned throughput for the table was exceeded'')"

text \<open>
  The event of the current request; the same event naming a table that does not
  exist; the same event with an empty email; an event with no key at all.
\<close>

definition example_event :: event where
  "example_event =
     [''requests_table'' \<mapsto> PStr ''requests'', ''id'' \<mapsto> PStr ''r1'',
      ''email'' \<mapsto> PStr ''u@example.com'', ''accountId'' \<mapsto> PStr ''111111111111'',
      ''roleId'' \<mapsto> PStr ''ps-1'']"

definition event_for_missing_table :: event where
  "event_for_missing_table = example_event(''requests_table'' \<mapsto> PStr ''nowhere'')"

definition event_with_empty_email :: event where
  "event_with_empty_email = example_event(''email'' \<mapsto> PStr [])"

definition empty_event :: event where
  "empty_event = Map.empty"

subsection \<open>For the aggregator\<close>

text \<open>
  Globals of a deployment in a member account, of one in the management account,
  and of a member deployment whose lookup of the management account failed.
\<close>

definition management_id :: string where
  "management_id = ''999999999999''"

definition member_globals :: globals where
  "member_globals = \<lparr>ACCOUNT_ID = ''111111111111'', mgmt_account_id = Some management_id\<rparr>"


definition unset_globals :: globals where
  "unset_globals = \<lparr>ACCOUNT_ID = ''111111111111'', mgmt_account_id = None\<rparr>"



text \<open>
  Policies: of \<open>A\<close> with duration 5; of \<open>B\<close> with no duration and the OU \<open>ou-1\<close>; of \<open>C\<close>
  with duration 9; of \<open>G\<close>, stored under the key \<open>G\<close> and found by the index as well;
  of \<open>X\<close>, with an OU whose accounts may not be listed.
\<close>

definition policy_A :: eligibility where
  "policy_A =
     \<lparr>item_id = Some ''pol-a'',
      item_accounts = Some [\<lparr>data_name = ''dev'', data_id = ''acc1''\<rparr>],
      item_ous = None,
      item_permissions = Some [\<lparr>data_name = ''ReadOnly'', data_id = ''p1''\<rparr>],
      item_approvalRequired = Some False,
      item_duration = Some ''5''\<rparr>"

definition policy_B :: eligibility where
  "policy_B =
     \<lparr>item_id = Some ''pol-b'',
      item_accounts = None,
      item_ous = Some [\<lparr>data_name = ''workloads'', data_id = ''ou-1''\<rparr>],
      item_permissions = Some [\<lparr>data_name = ''Admin'', data_id = ''p2''\<rparr>],
      item_approvalRequired = None,
      item_duration = None\<rparr>"

definition policy_C :: eligibility where
  "policy_C =
     \<lparr>item_id = Some ''pol-c'',
      item_accounts = Some [\<lparr>data_name = ''prod'', data_id = ''acc3''\<rparr>],
      item_ous = None,
      item_permissions = None,
      item_approvalRequired = Some True,
      item_duration = Some ''9''\<rparr>"

definition policy_G :: eligibility where
  "policy_G =
     \<lparr>item_id = Some ''G'',
      item_accounts = Some [\<lparr>data_name = ''dev'', data_id = ''acc1''\<rparr>],
      item_ous = None,
      item_permissions = None,
      item_approvalRequired = None,
      item_duration = Some ''2''\<rparr>"

definition policy_X :: eligibility where
  "policy_X =
     \<lparr>item_id = Some ''pol-x'',
      item_accounts = Some [\<lparr>data_name = ''dev'', data_id = ''acc1''\<rparr>],
      item_ous = Some [\<lparr>data_name = ''closed'', data_id = ''ou-denied''\<rparr>],
      item_permissions = None,
      item_approvalRequired = None,
      item_duration = Some ''1''\<rparr>"

fun example_query :: "string \<Rightarrow> exn + items_response" where
  "example_query ident =
     (if ident = ''A'' then Inr \<lparr>resp_Items = Some [policy_A]\<rparr>
      else if ident = ''B'' then Inr \<lparr>resp_Items = Some [policy_B]\<rparr>
      else if ident = ''C'' then Inr \<lparr>resp_Items = Some [policy_C]\<rparr>
      else if ident = ''G'' then Inr \<lparr>resp_Items = Some [policy_G]\<rparr>
      else if ident = ''X'' then Inr \<lparr>resp_Items = Some [policy_X]\<rparr>
      else Inr \<lparr>resp_Items = Some []\<rparr>)"

fun example_get_item :: "string \<Rightarrow> exn + item_response" where
  "example_get_item ident =
     (if ident = ''G'' then Inr \<lparr>resp_Item = Some policy_G\<rparr>
      else Inr \<lparr>resp_Item = None\<rparr>)"

text \<open>
  The OU \<open>ou-1\<close> lists the management account and one workload account, on two
  pages; listing any other OU is denied.
\<close>

definition ou_1_pages :: "org_account list list" where
  "ou_1_pages =
     [[\<lparr>acct_Id = management_id, acct_Name = ''management''\<rparr>],
      [\<lparr>acct_Id = ''a1'', acct_Name = ''workload''\<rparr>]]"

fun example_pages :: "string \<Rightarrow> (exn + org_account list) list" where
  "example_pages ouId =
     (if ouId = ''ou-1'' then map Inr ou_1_pages
      else [Inl (ClientError ''AccessDeniedException'' ''ListAccountsForParent'' None
                   ''You do not have permissions to access this resource'')])"

text \<open>
  An endpoint that accepts the mutation, one that cannot be connected to, and one
  that answers with GraphQL errors.
\<close>

fun example_post :: "aggregated \<Rightarrow> exn + graphql_response" where
  "example_post result = Inr \<lparr>errors = None\<rparr>"

fun refused_post :: "aggregated \<Rightarrow> exn + graphql_response" where
  "refused_post result = Inl (RequestException ''Connection refused'')"

fun rejected_post :: "aggregated \<Rightarrow> exn + graphql_response" where
  "rejected_post result = Inr \<lparr>errors = Some [''Not Authorized to access publishPolicy'']\<rparr>"

definition example_services :: services where
  "example_services =
     \<lparr>query_byEntityId = example_query,
      get_item = example_get_item,
      list_accounts_for_parent = example_pages,
      get_credentials = Some ''credentials'',
      post_json = example_post\<rparr>"

definition refused_services :: services where
  "refused_services = example_services\<lparr>post_json := refused_post\<rparr>"

definition rejected_services :: services where
  "rejected_services = example_services\<lparr>post_json := rejected_post\<rparr>"

definition event_ABC :: aggregate_event where
  "event_ABC =
     \<lparr>ev_userId = Some ''A'', ev_groupIds = [Some ''B'', Some ''C''],
      ev_username = ''alice'', ev_id = ''req-1''\<rparr>"

definition event_X :: aggregate_event where
  "event_X =
     \<lparr>ev_userId = Some ''X'', ev_groupIds = [],
      ev_username = ''alice'', ev_id = ''req-2''\<rparr>"



text \<open>What the handler computes for \<open>event_ABC\<close> in the member deployment.\<close>

definition result_ABC :: aggregated where
  "result_ABC =
     \<lparr>result_id = ''req-1'',
      policy =
        [\<lparr>accounts = [\<lparr>data_name = ''dev'', data_id = ''acc1''\<rparr>],
          permissions = [\<lparr>data_name = ''ReadOnly'', data_id = ''p1''\<rparr>],
          approvalRequired = False, duration = ''5''\<rparr>,
         \<lparr>accounts = [\<lparr>data_name = ''workload'', data_id = ''a1''\<rparr>],
          permissions = [\<lparr>data_name = ''Admin'', data_id = ''p2''\<rparr>],
          approvalRequired = True, duration = ''5''\<rparr>,
         \<lparr>accounts = [\<lparr>data_name = ''prod'', data_id = ''acc3''\<rparr>],
          permissions = [], approvalRequired = True, duration = ''9''\<rparr>],
      username = ''alice''\<rparr>"

section \<open>The guard: what the scan reads and selects\<close>

lemma holds_filter_expression:
  "holds (guard_scan_request cur e a ro) r filter_expression = overlapping cur e a ro r"
  by (simp add: guard_scan_request_def filter_expression_def overlapping_def
      active_session_def split: option.splits)

lemma scan_guard:
  assumes "db t = Inr table"
  shows "\<exists>k. scan db t (guard_scan_request cur e a ro) =
           Inr \<lparr>Items = Some (map req_id (filter (overlapping cur e a ro) (first_page 0 table))),
                LastEvaluatedKey = k\<rparr>"
proof -
  have f: "FilterExpression (guard_scan_request cur e a ro) = filter_expression"
    by (simp add: guard_scan_request_def)
  show ?thesis
    unfolding scan_def Let_def by (simp add: assms f holds_filter_expression)
qed

text \<open>
  With the five inputs present and a scan that raises nothing, the guard decides on
  the first page of the table: the flag says whether an overlapping record is on that
  page, and the count is the number of overlapping records on it.
\<close>

lemma guard_counts_first_page:
  assumes "truthy (event_get ev ''requests_table'')"
    and "truthy (event_get ev ''id'')"
    and "truthy (event_get ev ''email'')"
    and "truthy (event_get ev ''accountId'')"
    and "truthy (event_get ev ''roleId'')"
    and "db (event_get ev ''requests_table'') = Inr table"
  shows "lambda_handler db ev =
           Inr \<lparr>hasOverlappingSessions =
                  (\<exists>r \<in> set (first_page 0 table).
                     overlapping (event_get ev ''id'') (event_get ev ''email'')
                       (event_get ev ''accountId'') (event_get ev ''roleId'') r),
                overlappingCount =
                  Some (int (length (filter
                     (overlapping (event_get ev ''id'') (event_get ev ''email'')
                        (event_get ev ''accountId'') (event_get ev ''roleId''))
                     (first_page 0 table)))),
                error = None\<rparr>"
proof -
  let ?P = "overlapping (event_get ev ''id'') (event_get ev ''email'')
              (event_get ev ''accountId'') (event_get ev ''roleId'')"
  let ?page = "first_page 0 table"
  have nonempty: "(filter ?P ?page \<noteq> []) = (\<exists>r \<in> set ?page. ?P r)"
    by (simp add: filter_empty_conv)
  from scan_guard [of db, OF assms(6)] obtain k where
    "scan db (event_get ev ''requests_table'')
       (guard_scan_request (event_get ev ''id'') (event_get ev ''email'')
          (event_get ev ''accountId'') (event_get ev ''roleId'')) =
     Inr \<lparr>Items = Some (map req_id (filter ?P ?page)), LastEvaluatedKey = k\<rparr>"
    by blast
  then show ?thesis
    unfolding lambda_handler_def Let_def
    using assms(1-5) by (simp add: nonempty)
qed

text \<open>
  The first page is a part of the table, the whole of it when the table has at most
  1 MB; nothing that follows the first 1 MB of the table is on it.
\<close>

lemma first_page_all:
  "used + sum_list (map req_size table) \<le> page_limit \<Longrightarrow> first_page used table = table"
  by (induction table arbitrary: used) (auto simp: add.assoc)

lemma first_page_subset: "set (first_page used table) \<subseteq> set table"
  by (induction table arbitrary: used) auto

lemma first_page_full: "page_limit < used \<Longrightarrow> first_page used ys = []"
  by (cases ys) simp_all

lemma first_page_cut:
  "page_limit < used + sum_list (map req_size xs) \<Longrightarrow>
   first_page used (xs @ ys) = first_page used xs"
  by (induction xs arbitrary: used) (auto simp: add.assoc first_page_full)

text \<open>
  For a table of at most 1 MB the guard decides as the specification says: the flag
  is true exactly if the table holds an overlapping record, and the count is the number
  of overlapping records.
\<close>

lemma guard_one_page:
  assumes "truthy (event_get ev ''requests_table'')"
    and "truthy (event_get ev ''id'')"
    and "truthy (event_get ev ''email'')"
    and "truthy (event_get ev ''accountId'')"
    and "truthy (event_get ev ''roleId'')"
    and "db (event_get ev ''requests_table'') = Inr table"
    and "sum_list (map req_size table) \<le> page_limit"
  shows "lambda_handler db ev =
           Inr \<lparr>hasOverlappingSessions =
                  (\<exists>r \<in> set table.
                     overlapping (event_get ev ''id'') (event_get ev ''email'')
                       (event_get ev ''accountId'') (event_get ev ''roleId'') r),
                overlappingCount =
                  Some (int (length (filter
                     (overlapping (event_get ev ''id'') (event_get ev ''email'')
                        (event_get ev ''accountId'') (event_get ev ''roleId'')) table))),
                error = None\<rparr>"
proof -
  from assms(7) have "first_page 0 table = table"
    by (simp add: first_page_all)
  with guard_counts_first_page [of ev db table, OF assms(1-6)] show ?thesis by simp
qed

lemma example_event_inputs:
  "event_get example_event ''requests_table'' = PStr ''requests''"
  "event_get example_event ''id'' = PStr ''r1''"
  "event_get example_event ''email'' = PStr ''u@example.com''"
  "event_get example_event ''accountId'' = PStr ''111111111111''"
  "event_get example_event ''roleId'' = PStr ''ps-1''"
  by (simp_all add: example_event_def event_get_def)

lemma guard_example_run:
  "lambda_handler example_store example_event =
     Inr \<lparr>hasOverlappingSessions = True, overlappingCount = Some 1, error = None\<rparr>"
proof -
  have "sum_list (map req_size example_table) \<le> page_limit"
    by (simp add: example_table_def current_request_def other_session_def page_limit_def)
  from guard_one_page [of example_event example_store example_table, OF _ _ _ _ _ _ this]
  show ?thesis
    by (simp add: example_event_inputs example_table_def current_request_def
        other_session_def overlapping_def active_session_def)
qed

text \<open>
  Of the large table, the scan reads the current request and old requests only.
\<close>

lemma old_requests_size:
  "sum_list (map (req_size \<circ> old_request) ns) = 1000 * length ns"
  by (induction ns) (simp_all add: old_request_def)

lemma large_table_page:
  "first_page 0 large_table = first_page 0 (current_request # map old_request [0..<1100])"
proof -
  have "page_limit < 0 + sum_list (map req_size (current_request # map old_request [0..<1100]))"
    by (simp add: old_requests_size current_request_def page_limit_def)
  from first_page_cut [OF this, of "[other_session]"] show ?thesis
    by (simp add: large_table_def)
qed

lemma large_table_no_overlap_read:
  "filter (overlapping (PStr ''r1'') e a ro) (first_page 0 large_table) = []"
proof -
  have "\<not> overlapping (PStr ''r1'') e a ro r"
    if "r \<in> set (current_request # map old_request [0..<1100])" for r
    using that by (auto simp: overlapping_def active_session_def current_request_def
        old_request_def)
  with first_page_subset [of 0 "current_request # map old_request [0..<1100]"]
  show ?thesis
    unfolding large_table_page by (auto simp: filter_empty_conv)
qed

text \<open>
  C1 fails on the code. The handler issues one Scan call and takes the items of its
  response for all the matching records of the table; it does not look at
  \<open>LastEvaluatedKey\<close> and asks for no further page. The large table holds another active
  session of the same user, account and permission set, after the first 1 MB; the guard
  returns \<open>hasOverlappingSessions = False\<close> with count 0.
\<close>

theorem guard_misses_session_beyond_first_page:
  "other_session \<in> set large_table \<and>
   overlapping (event_get example_event ''id'') (event_get example_event ''email'')
     (event_get example_event ''accountId'') (event_get example_event ''roleId'')
     other_session \<and>
   lambda_handler large_store example_event =
     Inr \<lparr>hasOverlappingSessions = False, overlappingCount = Some 0, error = None\<rparr>"
proof -
  have "other_session \<in> set large_table"
    by (simp add: large_table_def)
  moreover have "overlapping (event_get example_event ''id'') (event_get example_event ''email'')
     (event_get example_event ''accountId'') (event_get example_event ''roleId'')
     other_session"
    by (simp add: example_event_inputs overlapping_def active_session_def other_session_def)
  moreover have "lambda_handler large_store example_event =
     Inr \<lparr>hasOverlappingSessions = False, overlappingCount = Some 0, error = None\<rparr>"
    using guard_counts_first_page [of example_event large_store large_table]
      large_table_no_overlap_read
        [of "PStr ''u@example.com''" "PStr ''111111111111''" "PStr ''ps-1''"]
    by (simp add: example_event_inputs filter_empty_conv)
  ultimately show ?thesis by blast
qed

section \<open>The guard: failures\<close>

text \<open>
  When the five inputs are present and the scan raises a \<open>ClientError\<close>, the guard raises
  nothing: it returns \<open>hasOverlappingSessions = False\<close> with the error's text, which is
  not empty, and with no count.
\<close>

lemma guard_fail_open_on_client_error:
  assumes "truthy (event_get ev ''requests_table'')"
    and "truthy (event_get ev ''id'')"
    and "truthy (event_get ev ''email'')"
    and "truthy (event_get ev ''accountId'')"
    and "truthy (event_get ev ''roleId'')"
    and "db (event_get ev ''requests_table'') = Inl (ClientError code operation retries message)"
  shows "lambda_handler db ev =
           Inr \<lparr>hasOverlappingSessions = False, overlappingCount = None,
                error = Some (str_ClientError code operation retries message)\<rparr> \<and>
         str_ClientError code operation retries message \<noteq> []"
  unfolding lambda_handler_def Let_def scan_def
  using assms by (simp add: str_ClientError_def)

lemma guard_throttled_example:
  "lambda_handler throttled_store example_event =
     Inr \<lparr>hasOverlappingSessions = False, overlappingCount = None,
          error = Some (''An error occurred (ProvisionedThroughputExceededException) '' @
                        ''when calling the Scan operation (reached max retries: 9): '' @
                        ''The level of configured provisioned throughput for the table '' @
                        ''was exceeded'')\<rparr>"
  by code_simp

text \<open>
  What the guard raises is what the scan raised, and never a \<open>ClientError\<close>.
\<close>

lemma guard_raises_only_uncaught:
  assumes "lambda_handler db ev = Inl e"
  shows "db (event_get ev ''requests_table'') = Inl e \<and>
         (\<forall>code operation retries message. e \<noteq> ClientError code operation retries message)"
  using assms unfolding lambda_handler_def Let_def scan_def
  by (auto split: if_splits sum.splits exn.splits)

text \<open>
  C2 fails on the code. The handler catches \<open>ClientError\<close> only. A scan that cannot
  reach the endpoint raises an exception of botocore's other family; the guard does not
  return \<open>hasOverlappingSessions = False\<close> with the error, as its comment on errors says
  it does, but raises the exception to its caller.
\<close>

theorem guard_raises_connection_error:
  "lambda_handler unreachable_store example_event =
     Inl (BotoCoreError ''Could not connect to the endpoint URL'')"
  by (simp add: lambda_handler_def example_event_def event_get_def scan_def)

text \<open>
  C7. When one of the five inputs is absent from the event, or present with an empty
  value (the empty string, \<open>None\<close>, or another value Python takes for false), the
  guard raises nothing and returns \<open>hasOverlappingSessions = False\<close> with the error
  \<open>Missing required parameters\<close>, whatever the store.
\<close>

theorem guard_missing_input:
  assumes "k \<in> set [''requests_table'', ''id'', ''email'', ''accountId'', ''roleId'']"
    and "ev k = None \<or> (\<exists>v. ev k = Some v \<and> \<not> truthy v)"
  shows "lambda_handler db ev =
           Inr \<lparr>hasOverlappingSessions = False, overlappingCount = None,
                error = Some ''Missing required parameters''\<rparr>"
proof -
  from assms(2) have "\<not> truthy (event_get ev k)"
    by (auto simp: event_get_def)
  with assms(1) have "\<not> list_all truthy
      [event_get ev ''requests_table'', event_get ev ''id'', event_get ev ''email'',
       event_get ev ''accountId'', event_get ev ''roleId'']"
    by auto
  then show ?thesis
    unfolding lambda_handler_def Let_def by simp
qed

theorem guard_missing_input_witness:
  "''email'' \<in> set [''requests_table'', ''id'', ''email'', ''accountId'', ''roleId''] \<and>
   event_with_empty_email ''email'' = Some (PStr []) \<and>
   \<not> truthy (PStr []) \<and>
   lambda_handler example_store event_with_empty_email =
     Inr \<lparr>hasOverlappingSessions = False, overlappingCount = None,
          error = Some ''Missing required parameters''\<rparr>"
  using guard_missing_input [of "''email''" event_with_empty_email example_store]
  by (simp add: event_with_empty_email_def)

text \<open>
  C8, as amended. The result of the guard has the count exactly when the five inputs
  are present and the scan raised nothing; that result has a count \<open>n \<ge> 0\<close>,
  \<open>hasOverlappingSessions = (n > 0)\<close> and no error. With an input missing, the result is
  \<open>hasOverlappingSessions = False\<close> with the error \<open>Missing required parameters\<close> and no
  count; after a \<open>ClientError\<close> of the scan, it is \<open>hasOverlappingSessions = False\<close> with
  the text of the error, which is not empty, and no count.
\<close>

theorem guard_result_shape:
  "(\<not> list_all truthy
        [event_get ev ''requests_table'', event_get ev ''id'', event_get ev ''email'',
         event_get ev ''accountId'', event_get ev ''roleId''] \<longrightarrow>
      lambda_handler db ev =
        Inr \<lparr>hasOverlappingSessions = False, overlappingCount = None,
             error = Some ''Missing required parameters''\<rparr>) \<and>
   (list_all truthy
        [event_get ev ''requests_table'', event_get ev ''id'', event_get ev ''email'',
         event_get ev ''accountId'', event_get ev ''roleId''] \<longrightarrow>
      (\<forall>code operation retries message.
         db (event_get ev ''requests_table'') =
           Inl (ClientError code operation retries message) \<longrightarrow>
         lambda_handler db ev =
           Inr \<lparr>hasOverlappingSessions = False, overlappingCount = None,
                error = Some (str_ClientError code operation retries message)\<rparr> \<and>
         str_ClientError code operation retries message \<noteq> []) \<and>
      (\<forall>table.
         db (event_get ev ''requests_table'') = Inr table \<longrightarrow>
         (\<exists>n. 0 \<le> n \<and>
            lambda_handler db ev =
              Inr \<lparr>hasOverlappingSessions = (0 < n), overlappingCount = Some n,
                   error = None\<rparr>))) \<and>
   (\<forall>res.
      lambda_handler db ev = Inr res \<longrightarrow>
      (overlappingCount res \<noteq> None) =
        (list_all truthy
           [event_get ev ''requests_table'', event_get ev ''id'', event_get ev ''email'',
            event_get ev ''accountId'', event_get ev ''roleId''] \<and>
         (\<exists>table. db (event_get ev ''requests_table'') = Inr table)) \<and>
      (overlappingCount res = None) = (error res \<noteq> None))"
proof -
  let ?inputs = "[event_get ev ''requests_table'', event_get ev ''id'', event_get ev ''email'',
                 event_get ev ''accountId'', event_get ev ''roleId'']"
  have missing: "lambda_handler db ev =
        Inr \<lparr>hasOverlappingSessions = False, overlappingCount = None,
             error = Some ''Missing required parameters''\<rparr>"
    if "\<not> list_all truthy ?inputs"
    using that unfolding lambda_handler_def Let_def by simp
  have failed: "lambda_handler db ev =
           Inr \<lparr>hasOverlappingSessions = False, overlappingCount = None,
                error = Some (str_ClientError code operation retries message)\<rparr> \<and>
         str_ClientError code operation retries message \<noteq> []"
    if "list_all truthy ?inputs"
      and "db (event_get ev ''requests_table'') = Inl (ClientError code operation retries message)"
    for code operation retries message
    using that guard_fail_open_on_client_error [of ev db code operation retries message]
    by simp
  have scanned: "\<exists>n. 0 \<le> n \<and>
            lambda_handler db ev =
              Inr \<lparr>hasOverlappingSessions = (0 < n), overlappingCount = Some n,
                   error = None\<rparr>"
    if "list_all truthy ?inputs" and "db (event_get ev ''requests_table'') = Inr table"
    for table
  proof -
    let ?n = "int (length (filter
                     (overlapping (event_get ev ''id'') (event_get ev ''email'')
                        (event_get ev ''accountId'') (event_get ev ''roleId''))
                     (first_page 0 table)))"
    from that guard_counts_first_page [of ev db table]
    have "lambda_handler db ev =
            Inr \<lparr>hasOverlappingSessions = (0 < ?n), overlappingCount = Some ?n, error = None\<rparr>"
      by (simp add: filter_empty_conv)
    then show ?thesis by (intro exI [of _ ?n]) simp
  qed
  have count: "(overlappingCount res \<noteq> None) =
        (list_all truthy ?inputs \<and> (\<exists>table. db (event_get ev ''requests_table'') = Inr table)) \<and>
      (overlappingCount res = None) = (error res \<noteq> None)"
    if res: "lambda_handler db ev = Inr res" for res
  proof (cases "list_all truthy ?inputs")
    case False
    with missing res show ?thesis by auto
  next
    case True
    show ?thesis
    proof (cases "db (event_get ev ''requests_table'')")
      case (Inr table)
      with scanned [OF True] res True show ?thesis by auto
    next
      case (Inl e)
      show ?thesis
      proof (cases e)
        case (ClientError code operation retries message)
        with failed [OF True] Inl res True show ?thesis by auto
      qed (use Inl res True in \<open>auto simp: lambda_handler_def Let_def scan_def\<close>)
    qed
  qed
  from missing failed scanned count show ?thesis by blast
qed

theorem guard_result_shape_witness:
  "list_all truthy
     [event_get example_event ''requests_table'', event_get example_event ''id'',
      event_get example_event ''email'', event_get example_event ''accountId'',
      event_get example_event ''roleId''] \<and>
   example_store (event_get example_event ''requests_table'') = Inr example_table \<and>
   lambda_handler example_store example_event =
     Inr \<lparr>hasOverlappingSessions = True, overlappingCount = Some 1, error = None\<rparr> \<and>
   (overlappingCount \<lparr>hasOverlappingSessions = True, overlappingCount = Some 1, error = None\<rparr>
      \<noteq> None) \<and>
   throttled_store (event_get example_event ''requests_table'') =
     Inl (ClientError ''ProvisionedThroughputExceededException'' ''Scan'' (Some 9)
            ''The level of configured provisioned throughput for the table was exceeded'') \<and>
   lambda_handler throttled_store example_event =
     Inr \<lparr>hasOverlappingSessions = False, overlappingCount = None,
          error = Some (str_ClientError ''ProvisionedThroughputExceededException'' ''Scan''
            (Some 9)
            ''The level of configured provisioned throughput for the table was exceeded'')\<rparr> \<and>
   \<not> list_all truthy
     [event_get empty_event ''requests_table'', event_get empty_event ''id'',
      event_get empty_event ''email'', event_get empty_event ''accountId'',
      event_get empty_event ''roleId''] \<and>
   lambda_handler example_store empty_event =
     Inr \<lparr>hasOverlappingSessions = False, overlappingCount = None,
          error = Some ''Missing required parameters''\<rparr>"
proof -
  have present: "list_all truthy
     [event_get example_event ''requests_table'', event_get example_event ''id'',
      event_get example_event ''email'', event_get example_event ''accountId'',
      event_get example_event ''roleId'']"
    by (simp add: example_event_inputs)
  have table: "example_store (event_get example_event ''requests_table'') = Inr example_table"
    by (simp add: example_event_inputs)
  have throttled: "throttled_store (event_get example_event ''requests_table'') =
     Inl (ClientError ''ProvisionedThroughputExceededException'' ''Scan'' (Some 9)
            ''The level of configured provisioned throughput for the table was exceeded'')"
    by simp
  have absent: "\<not> list_all truthy
     [event_get empty_event ''requests_table'', event_get empty_event ''id'',
      event_get empty_event ''email'', event_get empty_event ''accountId'',
      event_get empty_event ''roleId'']"
    by (simp add: empty_event_def event_get_def)
  from guard_result_shape [of example_event throttled_store] present throttled
  have failed: "lambda_handler throttled_store example_event =
     Inr \<lparr>hasOverlappingSessions = False, overlappingCount = None,
          error = Some (str_ClientError ''ProvisionedThroughputExceededException'' ''Scan''
            (Some 9)
            ''The level of configured provisioned throughput for the table was exceeded'')\<rparr>"
    by blast
  from guard_result_shape [of empty_event example_store] absent
  have missing: "lambda_handler example_store empty_event =
     Inr \<lparr>hasOverlappingSessions = False, overlappingCount = None,
          error = Some ''Missing required parameters''\<rparr>"
    by blast
  from present table throttled absent failed missing guard_example_run
  show ?thesis by simp
qed

text \<open>
  C8 as stated fails: for an event with no key the guard returns a result that has
  no count.
\<close>

theorem guard_count_absent_counterexample:
  "lambda_handler example_store empty_event =
     Inr \<lparr>hasOverlappingSessions = False, overlappingCount = None,
          error = Some ''Missing required parameters''\<rparr>"
  by (simp add: lambda_handler_def empty_event_def event_get_def)

section \<open>The aggregator: OU expansion\<close>

lemma extend_page_filter:
  "extend_page g (Some (ACCOUNT_ID g) = mgmt_account_id g) account page =
     account @ map account_entry (filter (kept g) page)"
  by (induction page arbitrary: account) (auto simp: kept_def)

lemma extend_pages_filter:
  "extend_pages g (Some (ACCOUNT_ID g) = mgmt_account_id g) account (map Inr pages) =
     Inr (account @ map account_entry (filter (kept g) (concat pages)))"
  by (induction pages arbitrary: account) (simp_all add: extend_page_filter)

lemma list_account_for_ou_pages:
  assumes "list_accounts_for_parent sv ouId = map Inr pages"
  shows "list_account_for_ou g sv ouId =
           Inr (Some (map account_entry (filter (kept g) (concat pages))))"
  unfolding list_account_for_ou_def Let_def
  using extend_pages_filter [of g "[]" pages] assms
  by (cases "Some (ACCOUNT_ID g) = mgmt_account_id g") simp_all






section \<open>The aggregator: the loops of the handler\<close>

lemma expand_ous_prefix:
  "expand_ous g sv accts ous = Inr r \<Longrightarrow> set accts \<subseteq> set r"
proof (induction ous arbitrary: accts)
  case Nil
  then show ?case by simp
next
  case (Cons ou ous)
  then show ?case
    by (fastforce split: sum.splits option.splits)
qed

lemma expand_ous_member:
  "expand_ous g sv accts ous = Inr r \<Longrightarrow> ou \<in> set ous \<Longrightarrow>
   list_account_for_ou g sv (data_id ou) = Inr (Some d) \<Longrightarrow> set d \<subseteq> set r"
proof (induction ous arbitrary: accts)
  case Nil
  then show ?case by simp
next
  case (Cons o' ous)
  show ?case
  proof (cases "ou = o'")
    case True
    with Cons.prems have "expand_ous g sv (accts @ d) ous = Inr r"
      by simp
    from expand_ous_prefix [OF this] show ?thesis by simp
  next
    case False
    with Cons.prems have "ou \<in> set ous" by simp
    moreover from Cons.prems(1) obtain d' where
      "expand_ous g sv (accts @ d') ous = Inr r"
      by (auto split: sum.splits option.splits)
    ultimately show ?thesis
      using Cons.IH Cons.prems(3) by blast
  qed
qed

text \<open>What one run of the loop body gives when it raises nothing.\<close>

lemma process_item_Inr:
  assumes "process_item g sv (m, es) item = Inr st'"
  obtains accts where
    "py_int (case item_duration item of None \<Rightarrow> ''0'' | Some d \<Rightarrow> d) = Inr (duration_int item)"
    "expand_ous g sv (case item_accounts item of None \<Rightarrow> [] | Some a \<Rightarrow> a)
        (case item_ous item of None \<Rightarrow> [] | Some os \<Rightarrow> os) = Inr accts"
    "st' = (max m (duration_int item),
            es @ [\<lparr>accounts = accts,
                   permissions = (case item_permissions item of None \<Rightarrow> [] | Some ps \<Rightarrow> ps),
                   approvalRequired =
                     (case item_approvalRequired item of None \<Rightarrow> True | Some b \<Rightarrow> b),
                   duration = (case item_duration item of
                                 None \<Rightarrow> str_int (max m (duration_int item))
                               | Some d \<Rightarrow> d)\<rparr>])"
proof -
  let ?n = "duration_int item"
  from assms obtain n where
    "py_int (case item_duration item of None \<Rightarrow> ''0'' | Some d \<Rightarrow> d) = Inr n"
    unfolding process_item_def by (auto split: sum.splits)
  then have n: "py_int (case item_duration item of None \<Rightarrow> ''0'' | Some d \<Rightarrow> d) = Inr ?n"
    by (simp add: duration_int_def)
  have mx: "(if m < ?n then ?n else m) = max m ?n"
    by (simp add: max_def)
  let ?x = "expand_ous g sv (case item_accounts item of None \<Rightarrow> [] | Some a \<Rightarrow> a)
        (case item_ous item of None \<Rightarrow> [] | Some os \<Rightarrow> os)"
  from assms n obtain accts where ex: "?x = Inr accts"
    unfolding process_item_def Let_def by (cases ?x) auto
  from assms n ex have
    "st' = (max m ?n,
            es @ [\<lparr>accounts = accts,
                   permissions = (case item_permissions item of None \<Rightarrow> [] | Some ps \<Rightarrow> ps),
                   approvalRequired =
                     (case item_approvalRequired item of None \<Rightarrow> True | Some b \<Rightarrow> b),
                   duration = (case item_duration item of
                                 None \<Rightarrow> str_int (max m ?n)
                               | Some d \<Rightarrow> d)\<rparr>])"
    unfolding process_item_def Let_def by (auto simp: mx split: option.splits)
  with n ex that show ?thesis by blast
qed

lemma process_items_append:
  "process_items g sv st (xs @ ys) =
     (case process_items g sv st xs of
        Inl e \<Rightarrow> Inl e
      | Inr st' \<Rightarrow> process_items g sv st' ys)"
  by (induction xs arbitrary: st) (auto split: sum.splits)

lemma running_max_Cons:
  "running_max m (item # items) = running_max (max m (duration_int item)) items"
  by (simp add: running_max_def)

lemma running_max_ge: "m \<le> running_max m items"
proof (induction items arbitrary: m)
  case Nil
  then show ?case by (simp add: running_max_def)
next
  case (Cons item items)
  have "m \<le> max m (duration_int item)" by simp
  also have "\<dots> \<le> running_max (max m (duration_int item)) items" by (rule Cons.IH)
  finally show ?case by (simp add: running_max_Cons)
qed

text \<open>
  The loop over the items keeps \<open>maxDuration\<close> the running maximum and appends one
  entry for each item.
\<close>

lemma process_items_Inr:
  "process_items g sv (m, es) items = Inr (m', es') \<Longrightarrow>
   m' = running_max m items \<and> (\<exists>new. es' = es @ new \<and> length new = length items)"
proof (induction items arbitrary: m es)
  case Nil
  then show ?case by (simp add: running_max_def)
next
  case (Cons item items)
  from Cons.prems obtain st1 where
    st1: "process_item g sv (m, es) item = Inr st1"
    and rest: "process_items g sv st1 items = Inr (m', es')"
    by (auto split: sum.splits)
  from st1 obtain e1 where
    st1_eq: "st1 = (max m (duration_int item), es @ [e1])"
    by (auto elim: process_item_Inr)
  from Cons.IH [OF rest [unfolded st1_eq]] obtain new where
    "m' = running_max (max m (duration_int item)) items"
    "es' = (es @ [e1]) @ new" "length new = length items"
    by auto
  then show ?case
    by (auto simp: running_max_Cons)
qed

text \<open>
  The two nested loops process the resolved policies of all identities as one
  sequence: the state passes from one identity to the next.
\<close>

lemma process_ids_flat:
  "process_ids g sv st ids = Inr st' \<Longrightarrow>
   \<exists>items. resolved_policies sv ids = Inr items \<and> process_items g sv st items = Inr st'"
proof (induction g sv st ids rule: process_ids.induct)
  case (1 g sv st)
  then show ?case by simp
next
  case (2 g sv st ids)
  then show ?case by simp
next
  case (3 g sv st ident ids)
  show ?case
  proof (cases "ident = []")
    case True
    with 3 show ?thesis by simp
  next
    case False
    from "3.prems" False obtain response where
      resp: "get_entitlements sv ident = Inr response"
      by (auto split: sum.splits)
    let ?items = "case resp_Items response of None \<Rightarrow> [] | Some xs \<Rightarrow> xs"
    show ?thesis
    proof (cases "?items = []")
      case True
      with "3.prems" False resp have "process_ids g sv st ids = Inr st'"
        by (simp add: Let_def)
      from "3.IH"(2) [OF False resp refl True this] obtain rest where
        "resolved_policies sv ids = Inr rest" "process_items g sv st rest = Inr st'"
        by blast
      with False resp True show ?thesis by simp
    next
      case nonempty: False
      with "3.prems" False resp obtain st1 where
        st1: "process_items g sv st ?items = Inr st1"
        and then_ids: "process_ids g sv st1 ids = Inr st'"
        by (auto simp: Let_def split: sum.splits)
      from "3.IH"(3) [OF False resp refl nonempty st1 then_ids] obtain rest where
        "resolved_policies sv ids = Inr rest" "process_items g sv st1 rest = Inr st'"
        by blast
      with False resp st1 show ?thesis
        by (simp add: process_items_append)
    qed
  qed
qed

lemma publishPolicy_Inr: "publishPolicy sv result = Inr r \<Longrightarrow> r = result"
  unfolding publishPolicy_def by (auto split: option.splits sum.splits if_splits)

lemma handler_Inr:
  assumes "handler g sv ev = Inr res"
  obtains m where
    "process_ids g sv (0, []) (ev_userId ev # ev_groupIds ev) = Inr (m, policy res)"
    "result_id res = ev_id ev" "username res = ev_username ev"
proof -
  from assms obtain m es where
    ids: "process_ids g sv (0, []) (ev_userId ev # ev_groupIds ev) = Inr (m, es)"
    and pub: "publishPolicy sv
                \<lparr>result_id = ev_id ev, policy = es, username = ev_username ev\<rparr> = Inr res"
    unfolding handler_def by (auto split: sum.splits prod.splits)
  from publishPolicy_Inr [OF pub]
  have "res = \<lparr>result_id = ev_id ev, policy = es, username = ev_username ev\<rparr>" .
  with ids that show ?thesis by simp
qed

section \<open>The aggregator: runs on the concrete inputs\<close>

lemma run_ABC: "handler member_globals example_services event_ABC = Inr result_ABC"
  by code_simp

lemma resolved_ABC:
  "resolved_policies example_services (ev_userId event_ABC # ev_groupIds event_ABC) =
     Inr ([policy_A] @ policy_B # [policy_C])"
  by code_simp

text \<open>With the lookup of the management account failed, its account is in the result.\<close>

lemma run_ABC_unset:
  "handler unset_globals example_services event_ABC =
     Inr (result_ABC\<lparr>policy :=
            [policy result_ABC ! 0,
             (policy result_ABC ! 1)\<lparr>accounts :=
                [\<lparr>data_name = ''management'', data_id = management_id\<rparr>,
                 \<lparr>data_name = ''workload'', data_id = ''a1''\<rparr>]\<rparr>,
             policy result_ABC ! 2]\<rparr>)"
  by code_simp

section \<open>The aggregator: resolution of one identity\<close>


text \<open>A \<open>ClientError\<close> of either lookup of one identity contributes nothing.\<close>

lemma get_entitlements_absorbs_client_errors:
  assumes "query_byEntityId sv ident = Inl (ClientError c1 o1 r1 m1)"
    and "get_item sv ident = Inl (ClientError c2 o2 r2 m2)"
  shows "get_entitlements sv ident = Inr \<lparr>resp_Items = Some []\<rparr>"
  using assms by (simp add: get_entitlements_def index_policies_def)




section \<open>The aggregator: the default duration\<close>

text \<open>
  C5. When the handler returns and the resolved policies, in identity-set order, are
  \<open>pre\<close>, then a policy without the duration field, then \<open>post\<close>, the entry of that
  policy (the one at position \<open>length pre\<close> of the result) has for duration the string
  of the running maximum over \<open>pre\<close> alone, whatever the durations in \<open>post\<close>.
\<close>

theorem default_duration_is_running_maximum:
  assumes "handler g sv ev = Inr res"
    and "resolved_policies sv (ev_userId ev # ev_groupIds ev) = Inr (pre @ item # post)"
    and "item_duration item = None"
  shows "length (policy res) = length pre + 1 + length post \<and>
         duration (policy res ! length pre) = str_int (running_max 0 pre)"
proof -
  from assms(1) obtain m where
    ids: "process_ids g sv (0, []) (ev_userId ev # ev_groupIds ev) = Inr (m, policy res)"
    by (rule handler_Inr)
  from process_ids_flat [OF ids] assms(2) have
    all: "process_items g sv (0, []) (pre @ item # post) = Inr (m, policy res)"
    by simp
  then obtain m1 es1 where
    pre: "process_items g sv (0, []) pre = Inr (m1, es1)"
    and tail: "process_items g sv (m1, es1) (item # post) = Inr (m, policy res)"
    by (auto simp: process_items_append split: sum.splits)
  from tail obtain st2 where
    item: "process_item g sv (m1, es1) item = Inr st2"
    and post: "process_items g sv st2 post = Inr (m, policy res)"
    by (auto split: sum.splits)
  from process_items_Inr [OF pre] have
    m1: "m1 = running_max 0 pre" and len1: "length es1 = length pre"
    by auto
  have "0 \<le> m1" unfolding m1 by (rule running_max_ge)
  moreover have "py_int ''0'' = Inr 0"
    by code_simp
  with assms(3) have "duration_int item = 0"
    by (simp add: duration_int_def)
  ultimately have max1: "max m1 (duration_int item) = m1" by simp
  from item obtain e where
    st2: "st2 = (m1, es1 @ [e])" and e: "duration e = str_int m1"
    using assms(3) max1 by (auto elim!: process_item_Inr)
  from process_items_Inr [OF post [unfolded st2]] obtain new where
    new: "policy res = (es1 @ [e]) @ new" "length new = length post"
    by auto
  from new len1 have "policy res ! length pre = e"
    by (simp add: nth_append)
  with new len1 e m1 show ?thesis by simp
qed

theorem default_duration_is_running_maximum_witness:
  "handler member_globals example_services event_ABC = Inr result_ABC \<and>
   resolved_policies example_services (ev_userId event_ABC # ev_groupIds event_ABC) =
     Inr ([policy_A] @ policy_B # [policy_C]) \<and>
   item_duration policy_A = Some ''5'' \<and>
   item_duration policy_B = None \<and>
   item_duration policy_C = Some ''9'' \<and>
   length (policy result_ABC) = 3 \<and>
   duration (policy result_ABC ! 1) = ''5''"
proof -
  have none: "item_duration policy_B = None"
    by (simp add: policy_B_def)
  have "running_max 0 [policy_A] = 5"
    by code_simp
  moreover have "str_int 5 = ''5''"
    by code_simp
  ultimately show ?thesis
    using default_duration_is_running_maximum [OF run_ABC resolved_ABC none]
      run_ABC resolved_ABC none
    by (simp add: policy_A_def policy_C_def)
qed

section \<open>The aggregator: failures\<close>

text \<open>
  C9. With credentials at hand, \<open>publishPolicy\<close> returns the result it was given,
  whatever the POST to the endpoint does: raise an exception, answer with GraphQL
  errors, or succeed. So the handler returns the result it computed from the loop
  over the identities, and raises only what that loop raises.
\<close>

theorem publish_failure_not_escalated:
  assumes "get_credentials sv = Some credentials"
  shows "publishPolicy sv result = Inr result \<and>
         handler g sv ev =
           (case process_ids g sv (0, []) ([ev_userId ev] @ ev_groupIds ev) of
              Inl e \<Rightarrow> Inl e
            | Inr st \<Rightarrow>
                Inr \<lparr>result_id = ev_id ev, policy = snd st, username = ev_username ev\<rparr>)"
proof -
  have pub: "publishPolicy sv r = Inr r" for r
    using assms unfolding publishPolicy_def by (simp split: sum.splits)
  then show ?thesis
    unfolding handler_def by (simp split: sum.splits prod.splits)
qed

theorem publish_failure_not_escalated_witness:
  "get_credentials refused_services = Some ''credentials'' \<and>
   post_json refused_services result_ABC = Inl (RequestException ''Connection refused'') \<and>
   publishPolicy refused_services result_ABC = Inr result_ABC \<and>
   handler member_globals refused_services event_ABC = Inr result_ABC"
proof -
  have c: "get_credentials refused_services = Some ''credentials''"
    by (simp add: refused_services_def example_services_def)
  have p: "post_json refused_services result_ABC =
      Inl (RequestException ''Connection refused'')"
    by (simp add: refused_services_def)
  have ids: "process_ids member_globals refused_services (0, [])
               (ev_userId event_ABC # ev_groupIds event_ABC) = Inr (9, policy result_ABC)"
    by code_simp
  have r: "\<lparr>result_id = ev_id event_ABC, policy = policy result_ABC,
            username = ev_username event_ABC\<rparr> = result_ABC"
    by (simp add: event_ABC_def result_ABC_def)
  from publish_failure_not_escalated [OF c, of result_ABC member_globals event_ABC] c p
  show ?thesis
    by (simp add: ids r)
qed

text \<open>The same result when the endpoint answers with GraphQL errors.\<close>

lemma publish_rejected_example:
  "post_json rejected_services result_ABC =
     Inr \<lparr>errors = Some [''Not Authorized to access publishPolicy'']\<rparr> \<and>
   handler member_globals rejected_services event_ABC = Inr result_ABC"
  by code_simp

text \<open>
  After a \<open>ClientError\<close> of the first page or a later one, \<open>list_account_for_ou\<close>
  returns \<open>None\<close>, and the loop over the OUs of a policy raises \<open>TypeError\<close>.
\<close>

lemma extend_pages_raises:
  "extend_pages g deployed_in_mgmt account (map Inr pages @ Inl e # rest) = Inl e"
  by (induction pages arbitrary: account) simp_all

lemma list_account_for_ou_after_client_error:
  assumes "list_accounts_for_parent sv ouId =
             map Inr pages @ Inl (ClientError code operation retries message) # rest"
  shows "list_account_for_ou g sv ouId = Inr None"
  unfolding list_account_for_ou_def Let_def
  by (simp add: assms extend_pages_raises)

lemma expand_ous_after_client_error:
  assumes "list_accounts_for_parent sv (data_id ou) =
             map Inr pages @ Inl (ClientError code operation retries message) # rest"
  shows "expand_ous g sv accts (ou # ous) = Inl TypeError"
  by (simp add: list_account_for_ou_after_client_error [OF assms])

text \<open>
  C3 fails on the code. A \<open>ClientError\<close> while the accounts of an OU are listed is
  caught in \<open>list_account_for_ou\<close>, which then returns \<open>None\<close>; the handler extends the
  accounts of the policy with that \<open>None\<close>, and the \<open>TypeError\<close> of \<open>extend\<close> ends the
  whole aggregation.
\<close>

theorem handler_raises_after_ou_failure:
  "handler member_globals example_services event_X = Inl TypeError"
  by code_simp

section \<open>The aggregator: the management account that could not be looked up\<close>

text \<open>
  C10. When \<open>describe_organization\<close> raised a \<open>ClientError\<close> at the module's
  initialisation, the stored management account id is \<open>None\<close>. Then the expansion
  of an OU whose pages are listed without an exception returns every member account,
  and every member account of an OU of a policy (the management account among them,
  if it is a member) is among the accounts of that policy's entry in the aggregated
  result.
\<close>

theorem unset_management_account_keeps_every_member:
  assumes "module_init account_id (Inl (ClientError code operation retries message)) = Inr g"
    and "list_accounts_for_parent sv ouId = map Inr pages"
  shows "mgmt_account_id g = None \<and>
         list_account_for_ou g sv ouId = Inr (Some (map account_entry (concat pages))) \<and>
         (\<forall>st item st' ous ou acct.
            process_item g sv st item = Inr st' \<longrightarrow> item_ous item = Some ous \<longrightarrow>
            ou \<in> set ous \<longrightarrow> data_id ou = ouId \<longrightarrow> acct \<in> set (concat pages) \<longrightarrow>
            account_entry acct \<in> set (accounts (last (snd st'))))"
proof -
  from assms(1) have unset: "mgmt_account_id g = None"
    by (auto simp: module_init_def get_mgmt_account_id_def)
  then have "filter (kept g) (concat pages) = concat pages"
    by (simp add: kept_def)
  with list_account_for_ou_pages [OF assms(2), of g] have
    all: "list_account_for_ou g sv ouId = Inr (Some (map account_entry (concat pages)))"
    by simp
  have "account_entry acct \<in> set (accounts (last (snd st')))"
    if item: "process_item g sv st item = Inr st'" and ous: "item_ous item = Some ous"
      and ou: "ou \<in> set ous" "data_id ou = ouId" and acct: "acct \<in> set (concat pages)"
    for st item st' ous ou acct
  proof -
    obtain m es where st: "st = (m, es)" by (cases st)
    from item [unfolded st] obtain accts where
      ex: "expand_ous g sv (case item_accounts item of None \<Rightarrow> [] | Some a \<Rightarrow> a)
             (case item_ous item of None \<Rightarrow> [] | Some os \<Rightarrow> os) = Inr accts"
      and st': "accounts (last (snd st')) = accts"
      by (rule process_item_Inr) simp
    from ex ous have "expand_ous g sv (case item_accounts item of None \<Rightarrow> [] | Some a \<Rightarrow> a)
        ous = Inr accts"
      by simp
    from expand_ous_member [OF this ou(1)] all ou(2) have
      "set (map account_entry (concat pages)) \<subseteq> set accts"
      by simp
    with acct st' show ?thesis by auto
  qed
  with unset all show ?thesis by blast
qed

theorem unset_management_account_keeps_every_member_witness:
  "module_init ''111111111111''
     (Inl (ClientError ''AccessDeniedException'' ''DescribeOrganization'' None
             ''Access denied'')) =
     Inr unset_globals \<and>
   list_accounts_for_parent example_services ''ou-1'' = map Inr ou_1_pages \<and>
   mgmt_account_id unset_globals = None \<and>
   list_account_for_ou unset_globals example_services ''ou-1'' =
     Inr (Some [\<lparr>data_name = ''management'', data_id = management_id\<rparr>,
                \<lparr>data_name = ''workload'', data_id = ''a1''\<rparr>])"
proof -
  have init: "module_init ''111111111111''
     (Inl (ClientError ''AccessDeniedException'' ''DescribeOrganization'' None
             ''Access denied'')) =
     Inr unset_globals"
    by (simp add: module_init_def get_mgmt_account_id_def unset_globals_def)
  have pages: "list_accounts_for_parent example_services ''ou-1'' = map Inr ou_1_pages"
    by (simp add: example_services_def)
  from unset_management_account_keeps_every_member [OF init pages] init pages
  show ?thesis
    by (simp add: ou_1_pages_def management_id_def account_entry_def)
qed

end
